theory Spec2Isabelle
  imports Main
begin

section \<open>Data model of \<open>src/index.ts\<close>\<close>

text \<open>
  The six message tags of the type \<open>WiFiMessage\<close> (lines 8-14). The field
  \<open>currentState\<close> of the class has this very type: it holds the tag that was
  assigned last.
\<close>

datatype WiFiMessage =
  gotIP | lostIP | connect | disconnect | station_connect | station_disconnect

text \<open>
  The field \<open>APIndex\<close> is a JavaScript number. The only values the class can give
  it are natural numbers and, when the remainder is taken by a length of zero,
  \<open>NaN\<close>.
\<close>

datatype js_number = Num nat | NaN

fun js_add1 :: "js_number \<Rightarrow> js_number" where
  "js_add1 (Num n) = Num (Suc n)"
| "js_add1 NaN = NaN"

fun js_rem :: "js_number \<Rightarrow> nat \<Rightarrow> js_number" where
  "js_rem (Num n) m = (if m = 0 then NaN else Num (n mod m))"
| "js_rem NaN m = NaN"

text \<open>
  \<open>array[i]\<close>: outside the array (and at \<open>NaN\<close>) JavaScript yields
  \<open>undefined\<close>, here \<open>None\<close>.
\<close>

fun js_index :: "'a list \<Rightarrow> js_number \<Rightarrow> 'a option" where
  "js_index xs (Num i) = (if i < length xs then Some (xs ! i) else None)"
| "js_index xs NaN = None"

text \<open>
  The two closures handed to \<open>Timer.set\<close>: the one of \<open>handleDisconnect\<close>
  (lines 99-109) and the one of \<open>startConnectionTimer\<close> (lines 121-128).
\<close>

datatype timer_callback = ReconnectCallback | ConnectionCallback

text \<open>
  Everything the manager does to its collaborators, in the order it does it:
  calls of the driver (the parent class \<open>WiFi\<close>), of the timer service, of the
  caller's callback and of \<open>trace\<close>. \<open>TimerFired\<close> records that the timer
  service ran a callback.
\<close>

datatype 'ap action =
    SuperConstruct "'ap option"
  | WiFiConnect "'ap option"
  | WiFiDisconnect
  | SuperClose
  | TimerSet nat timer_callback int
  | TimerClear nat
  | TimerFired nat
  | OnNetworkChange WiFiMessage
  | Trace string

datatype error = DriverError

text \<open>
  The fields of the class \<open>WiFiConnectionManager\<close> (lines 55-64), followed by the
  state of the world around it: the next fresh timer handle, the timers that are
  scheduled and have neither fired nor been cleared, and the history of actions.
  A timer handle is an object, so it is always truthy; the model names it by a
  number. \<open>onNetworkChange\<close> says whether the optional callback was supplied.
\<close>

record 'ap manager =
  accessPointConfig :: "'ap list"
  onNetworkChange :: bool
  reconnectInterval :: int
  connectionTimeout :: int
  reconnectTimer :: "nat option"
  connectionTimer :: "nat option"
  currentState :: WiFiMessage
  APIndex :: js_number
  nextTimer :: nat
  pending :: "(nat \<times> timer_callback \<times> int) list"
  history :: "'ap action list"

text \<open>
  A call either returns the new state or throws: \<open>Inl\<close> carries the error and the
  state at the moment of the throw.
\<close>

type_synonym 's result = "(error \<times> 's) + 's"

definition and_then :: "'s result \<Rightarrow> ('s \<Rightarrow> 's result) \<Rightarrow> 's result" where
  "and_then r f = (case r of Inl x \<Rightarrow> Inl x | Inr s \<Rightarrow> f s)"

definition try_catch :: "'s result \<Rightarrow> (error \<Rightarrow> 's \<Rightarrow> 's result) \<Rightarrow> 's result" where
  "try_catch r h = (case r of Inl (e, s) \<Rightarrow> h e s | Inr s \<Rightarrow> Inr s)"

definition observe :: "('s \<Rightarrow> 'b) \<Rightarrow> 's result \<Rightarrow> 'b option" where
  "observe f r = (case r of Inl x \<Rightarrow> None | Inr s \<Rightarrow> Some (f s))"

section \<open>The collaborators\<close>

definition record_action :: "'ap action \<Rightarrow> 'ap manager \<Rightarrow> 'ap manager" where
  "record_action a s = s\<lparr>history := history s @ [a]\<rparr>"

text \<open>
  The driver is the parent class \<open>WiFi\<close> of the Moddable SDK, which is not part
  of the repository. Whether one of its calls returns or throws is a parameter
  \<open>ok\<close> of the call; the call is recorded either way.
\<close>

definition driver_call :: "bool \<Rightarrow> 'ap action \<Rightarrow> 'ap manager \<Rightarrow> 'ap manager result" where
  "driver_call ok a s =
     (if ok then Inr (record_action a s) else Inl (DriverError, record_action a s))"

definition WiFi_connect :: "bool \<Rightarrow> 'ap option \<Rightarrow> 'ap manager \<Rightarrow> 'ap manager result" where
  "WiFi_connect ok ap s = driver_call ok (WiFiConnect ap) s"

definition WiFi_disconnect :: "bool \<Rightarrow> 'ap manager \<Rightarrow> 'ap manager result" where
  "WiFi_disconnect ok s = driver_call ok WiFiDisconnect s"

definition super_close :: "bool \<Rightarrow> 'ap manager \<Rightarrow> 'ap manager result" where
  "super_close ok s = driver_call ok SuperClose s"

definition super_constructor :: "bool \<Rightarrow> 'ap option \<Rightarrow> 'ap manager \<Rightarrow> 'ap manager result" where
  "super_constructor ok ap s = driver_call ok (SuperConstruct ap) s"

definition trace :: "string \<Rightarrow> 'ap manager \<Rightarrow> 'ap manager" where
  "trace msg s = record_action (Trace msg) s"

text \<open>
  Modelled from the spec: the timer service (module \<open>timer\<close> of the Moddable SDK,
  not part of the repository). \<open>schedule(durationMs, callback) -> handle\<close> hands
  out a fresh handle for a single-shot timer; \<open>cancel(handle)\<close> is safe if the
  handle has already fired or has already been cancelled, and a cancelled
  handle's callback does not run.
\<close>

definition Timer_set ::
  "timer_callback \<Rightarrow> int \<Rightarrow> 'ap manager \<Rightarrow> nat \<times> 'ap manager" where
  "Timer_set cb interval s =
     (nextTimer s,
      s\<lparr>nextTimer := Suc (nextTimer s),
        pending := pending s @ [(nextTimer s, cb, interval)],
        history := history s @ [TimerSet (nextTimer s) cb interval]\<rparr>)"

definition Timer_clear :: "nat \<Rightarrow> 'ap manager \<Rightarrow> 'ap manager" where
  "Timer_clear t s =
     s\<lparr>pending := filter (\<lambda>p. fst p \<noteq> t) (pending s),
       history := history s @ [TimerClear t]\<rparr>"

section \<open>The methods of the class\<close>

text \<open>\<open>clearConnectionTimer\<close>, lines 134-139.\<close>

definition clearConnectionTimer :: "'ap manager \<Rightarrow> 'ap manager" where
  "clearConnectionTimer s =
     (case connectionTimer s of
        None \<Rightarrow> s
      | Some t \<Rightarrow> (Timer_clear t s)\<lparr>connectionTimer := None\<rparr>)"

text \<open>\<open>clearReconnectTimer\<close>, lines 144-149.\<close>

definition clearReconnectTimer :: "'ap manager \<Rightarrow> 'ap manager" where
  "clearReconnectTimer s =
     (case reconnectTimer s of
        None \<Rightarrow> s
      | Some t \<Rightarrow> (Timer_clear t s)\<lparr>reconnectTimer := None\<rparr>)"

text \<open>\<open>clearTimers\<close>, lines 154-157.\<close>

definition clearTimers :: "'ap manager \<Rightarrow> 'ap manager" where
  "clearTimers s = clearReconnectTimer (clearConnectionTimer s)"

text \<open>
  \<open>startConnectionTimer\<close>, lines 120-129: the new handle is stored without
  looking at the old one.
\<close>

definition startConnectionTimer :: "'ap manager \<Rightarrow> 'ap manager" where
  "startConnectionTimer s =
     (case Timer_set ConnectionCallback (connectionTimeout s) s of
        (t, s') \<Rightarrow> s'\<lparr>connectionTimer := Some t\<rparr>)"

text \<open>\<open>this.onNetworkChange?.(message)\<close>: the call happens if there is a callback.\<close>

definition notify :: "WiFiMessage \<Rightarrow> 'ap manager \<Rightarrow> 'ap manager" where
  "notify m s = (if onNetworkChange s then record_action (OnNetworkChange m) s else s)"

text \<open>
  \<open>handleDisconnect\<close>, lines 93-115. The closure given to \<open>Timer.set\<close> is
  \<open>reconnectCallback\<close> below; it runs when the timer service fires the timer.
\<close>

definition handleDisconnect :: "'ap manager \<Rightarrow> 'ap manager" where
  "handleDisconnect s =
     (let s1 = clearConnectionTimer s;
          s2 = s1\<lparr>APIndex := js_rem (js_add1 (APIndex s1)) (length (accessPointConfig s1))\<rparr>;
          s3 = clearReconnectTimer s2
      in case Timer_set ReconnectCallback (reconnectInterval s3) s3 of
           (t, s4) \<Rightarrow>
             (let s5 = s4\<lparr>reconnectTimer := Some t\<rparr>
              in if currentState s5 \<noteq> disconnect
                 then notify disconnect (s5\<lparr>currentState := disconnect\<rparr>)
                 else s5))"

text \<open>The closure of lines 99-109.\<close>

definition reconnectCallback :: "bool \<Rightarrow> 'ap manager \<Rightarrow> 'ap manager result" where
  "reconnectCallback ok s =
     (let s1 = s\<lparr>reconnectTimer := None\<rparr>
      in try_catch
           (and_then (WiFi_connect ok (js_index (accessPointConfig s1) (APIndex s1)) s1)
              (\<lambda>s2. Inr (startConnectionTimer s2)))
           (\<lambda>e s2. Inr (handleDisconnect (trace ''Error during reconnect:'' s2))))"

text \<open>The closure of lines 121-128.\<close>

definition connectionCallback :: "bool \<Rightarrow> 'ap manager \<Rightarrow> 'ap manager result" where
  "connectionCallback ok s =
     try_catch (WiFi_disconnect ok (clearConnectionTimer s))
       (\<lambda>e s1. Inr (trace ''Error during forced disconnect:'' s1))"

text \<open>\<open>handleWiFiEvent\<close>, lines 76-88.\<close>

definition handleWiFiEvent :: "WiFiMessage \<Rightarrow> 'ap manager \<Rightarrow> 'ap manager" where
  "handleWiFiEvent message s =
     (let s1 = (if message = disconnect then handleDisconnect s
                else if message = gotIP then (clearTimers s)\<lparr>APIndex := Num 0\<rparr>
                else if message = connect then clearReconnectTimer s
                else s)
      in notify message (s1\<lparr>currentState := message\<rparr>))"

text \<open>\<open>close\<close>, lines 164-177.\<close>

definition close :: "bool \<Rightarrow> bool \<Rightarrow> 'ap manager \<Rightarrow> 'ap manager result" where
  "close ok_disconnect ok_close s =
     and_then
       (try_catch (WiFi_disconnect ok_disconnect (clearTimers s))
          (\<lambda>e s1. Inr (trace ''Error during WiFi.disconnect:'' s1)))
       (\<lambda>s2. try_catch (super_close ok_close s2)
          (\<lambda>e s3. Inr (trace ''Error during super.close:'' s3)))"

text \<open>The getter \<open>ready\<close>, lines 182-184.\<close>

definition ready :: "'ap manager \<Rightarrow> bool" where
  "ready s = (currentState s = gotIP)"

text \<open>
  The constructor, lines 60-71, in a world with no timer scheduled. The two
  durations are optional arguments with defaults. An error thrown by the parent
  constructor is not caught.
\<close>

definition construct ::
  "bool \<Rightarrow> 'ap list \<Rightarrow> bool \<Rightarrow> int option \<Rightarrow> int option \<Rightarrow> 'ap manager result" where
  "construct ok aps callback interval timeout =
     and_then
       (super_constructor ok (js_index aps (Num 0))
          \<lparr>accessPointConfig = aps,
           onNetworkChange = callback,
           reconnectInterval = (case interval of None \<Rightarrow> 5000 | Some i \<Rightarrow> i),
           connectionTimeout = (case timeout of None \<Rightarrow> 30000 | Some i \<Rightarrow> i),
           reconnectTimer = None,
           connectionTimer = None,
           currentState = disconnect,
           APIndex = Num 0,
           nextTimer = 0,
           pending = [],
           history = []\<rparr>)
       (\<lambda>s. Inr (startConnectionTimer s))"

section \<open>The manager in its environment\<close>

text \<open>
  The timer service fires a scheduled timer: the timer is single-shot and leaves
  the service, then its callback runs. A handle that is not scheduled (it fired
  or was cleared) does not fire.
\<close>

definition fire :: "nat \<Rightarrow> bool \<Rightarrow> 'ap manager \<Rightarrow> 'ap manager result" where
  "fire t ok s =
     (case find (\<lambda>p. fst p = t) (pending s) of
        None \<Rightarrow> Inr s
      | Some (t', cb, interval) \<Rightarrow>
          (let s1 = s\<lparr>pending := filter (\<lambda>p. fst p \<noteq> t) (pending s),
                      history := history s @ [TimerFired t]\<rparr>
           in case cb of
                ReconnectCallback \<Rightarrow> reconnectCallback ok s1
              | ConnectionCallback \<Rightarrow> connectionCallback ok s1))"

text \<open>
  What can happen to a manager: the driver delivers a message, a timer expires
  (with the outcome of the driver call its callback makes), the caller calls
  \<open>close\<close> (with the outcomes of its two driver calls).
\<close>

datatype input = DriverEvent WiFiMessage | TimerExpiry nat bool | CloseCall bool bool

fun step :: "input \<Rightarrow> 'ap manager \<Rightarrow> 'ap manager result" where
  "step (DriverEvent m) s = Inr (handleWiFiEvent m s)"
| "step (TimerExpiry t ok) s = fire t ok s"
| "step (CloseCall ok_disconnect ok_close) s = close ok_disconnect ok_close s"

fun run :: "input list \<Rightarrow> 'ap manager \<Rightarrow> 'ap manager result" where
  "run [] s = Inr s"
| "run (i # is) s = and_then (step i s) (run is)"

section \<open>Notions used to state the properties\<close>

text \<open>The messages the caller's callback has received, oldest first.\<close>

fun notifications :: "'ap action list \<Rightarrow> WiFiMessage list" where
  "notifications [] = []"
| "notifications (OnNetworkChange m # as) = m # notifications as"
| "notifications (a # as) = notifications as"

text \<open>
  The manager of the example in the class comment: two access points (name and
  password), a callback and the default durations, right after construction.
\<close>

type_synonym credential = "string \<times> string"

definition first_ap :: credential where
  "first_ap = (''Freebox-ScreamZ'', ''invalid!'')"

definition second_ap :: credential where
  "second_ap = (''Freebox-ScreamZ'', ''good_password'')"

definition fresh_manager :: "credential manager" where
  "fresh_manager =
     \<lparr>accessPointConfig = [first_ap, second_ap],
      onNetworkChange = True,
      reconnectInterval = 5000,
      connectionTimeout = 30000,
      reconnectTimer = None,
      connectionTimer = Some 0,
      currentState = disconnect,
      APIndex = Num 0,
      nextTimer = 1,
      pending = [(0, ConnectionCallback, 30000)],
      history = [SuperConstruct (Some first_ap), TimerSet 0 ConnectionCallback 30000]\<rparr>"

text \<open>
  The timers that are live after a history of actions: scheduled, and since then
  neither cleared nor fired. A history schedules exclusively if no \<open>Timer.set\<close>
  in it happens while a timer with the same callback is live.
\<close>

fun timers_after :: "(nat \<times> timer_callback) list \<Rightarrow> 'ap action \<Rightarrow> (nat \<times> timer_callback) list" where
  "timers_after live (TimerSet t cb interval) = live @ [(t, cb)]"
| "timers_after live (TimerClear t) = filter (\<lambda>p. fst p \<noteq> t) live"
| "timers_after live (TimerFired t) = filter (\<lambda>p. fst p \<noteq> t) live"
| "timers_after live a = live"

fun exclusive_from :: "(nat \<times> timer_callback) list \<Rightarrow> 'ap action list \<Rightarrow> bool" where
  "exclusive_from live [] = True"
| "exclusive_from live (a # as) =
     ((case a of TimerSet t cb interval \<Rightarrow> cb \<notin> set (map snd live) | _ \<Rightarrow> True)
      \<and> exclusive_from (timers_after live a) as)"

definition exclusive_schedule :: "'ap action list \<Rightarrow> bool" where
  "exclusive_schedule as = exclusive_from [] as"

text \<open>The number of scheduled timers with a given callback.\<close>

definition live_count :: "timer_callback \<Rightarrow> 'ap manager \<Rightarrow> nat" where
  "live_count cb s = length (filter (\<lambda>p. fst (snd p) = cb) (pending s))"

text \<open>
  The invariant behind timer exclusivity: the manager never holds both handles,
  and the timers scheduled with the timer service are exactly the handles it
  holds.
\<close>

definition timers_consistent :: "'ap manager \<Rightarrow> bool" where
  "timers_consistent s =
     (case (connectionTimer s, reconnectTimer s) of
        (None, None) \<Rightarrow> pending s = []
      | (Some t, None) \<Rightarrow> pending s = [(t, ConnectionCallback, connectionTimeout s)]
      | (None, Some t) \<Rightarrow> pending s = [(t, ReconnectCallback, reconnectInterval s)]
      | (Some t, Some u) \<Rightarrow> False)"

definition history_consistent :: "'ap manager \<Rightarrow> bool" where
  "history_consistent s =
     (exclusive_from [] (history s) \<and>
      foldl timers_after [] (history s) = map (\<lambda>p. (fst p, fst (snd p))) (pending s))"

definition well_timed :: "'ap manager \<Rightarrow> bool" where
  "well_timed s = (timers_consistent s \<and> history_consistent s)"

text \<open>The candidate cursor is an index into the list of access points.\<close>

definition cursor_in_range :: "'ap manager \<Rightarrow> bool" where
  "cursor_in_range s =
     (case APIndex s of Num i \<Rightarrow> i < length (accessPointConfig s) | NaN \<Rightarrow> False)"

section \<open>Auxiliary facts\<close>

lemmas result_defs = and_then_def try_catch_def observe_def
lemmas collaborator_defs =
  record_action_def driver_call_def WiFi_connect_def WiFi_disconnect_def super_close_def
  super_constructor_def trace_def Timer_set_def Timer_clear_def
lemmas method_defs =
  clearConnectionTimer_def clearReconnectTimer_def clearTimers_def startConnectionTimer_def
  notify_def handleDisconnect_def reconnectCallback_def connectionCallback_def
  handleWiFiEvent_def close_def ready_def construct_def fire_def

lemma exclusive_from_append:
  "exclusive_from live (xs @ ys) =
     (exclusive_from live xs \<and> exclusive_from (foldl timers_after live xs) ys)"
  by (induction xs arbitrary: live) auto

lemma step_returns: "\<exists>s'. step i s = Inr s'"
proof (cases i)
  case (DriverEvent m)
  then show ?thesis by simp
next
  case (TimerExpiry t ok)
  then show ?thesis
    by (cases "find (\<lambda>p. fst p = t) (pending s)"; cases ok)
      (auto simp: fire_def reconnectCallback_def connectionCallback_def result_defs
        WiFi_connect_def WiFi_disconnect_def driver_call_def Let_def
        split: timer_callback.splits)
next
  case (CloseCall d c)
  then show ?thesis
    by (cases d; cases c)
      (simp_all add: close_def result_defs WiFi_disconnect_def super_close_def driver_call_def)
qed

lemma handleWiFiEvent_timers:
  "timers_consistent s \<Longrightarrow> timers_consistent (handleWiFiEvent m s)"
  by (cases "connectionTimer s"; cases "reconnectTimer s"; cases m)
    (simp_all add: timers_consistent_def collaborator_defs method_defs Let_def)

lemma close_timers:
  "timers_consistent s \<Longrightarrow> close d c s = Inr s' \<Longrightarrow> timers_consistent s'"
  by (cases "connectionTimer s"; cases "reconnectTimer s"; cases d; cases c)
    (auto simp: timers_consistent_def result_defs collaborator_defs method_defs)

lemma fire_timers:
  "timers_consistent s \<Longrightarrow> fire t ok s = Inr s' \<Longrightarrow> timers_consistent s'"
  by (cases "connectionTimer s"; cases "reconnectTimer s"; cases ok;
      cases "currentState s = disconnect")
    (auto simp: timers_consistent_def result_defs collaborator_defs method_defs Let_def
      split: if_splits)


lemma handleWiFiEvent_history:
  "timers_consistent s \<Longrightarrow> history_consistent s \<Longrightarrow> history_consistent (handleWiFiEvent m s)"
  by (cases "connectionTimer s"; cases "reconnectTimer s"; cases m)
    (simp_all add: timers_consistent_def history_consistent_def exclusive_from_append
      collaborator_defs method_defs Let_def)

lemma close_history:
  "timers_consistent s \<Longrightarrow> history_consistent s \<Longrightarrow> close d c s = Inr s' \<Longrightarrow>
   history_consistent s'"
  by (cases "connectionTimer s"; cases "reconnectTimer s"; cases d; cases c)
    (auto simp: timers_consistent_def history_consistent_def exclusive_from_append
      result_defs collaborator_defs method_defs)

lemma fire_history:
  "timers_consistent s \<Longrightarrow> history_consistent s \<Longrightarrow> fire t ok s = Inr s' \<Longrightarrow>
   history_consistent s'"
  by (cases "connectionTimer s"; cases "reconnectTimer s"; cases ok;
      cases "currentState s = disconnect")
    (auto simp: timers_consistent_def history_consistent_def exclusive_from_append
      result_defs collaborator_defs method_defs Let_def split: if_splits)

lemma step_well_timed: "well_timed s \<Longrightarrow> step i s = Inr s' \<Longrightarrow> well_timed s'"
  by (cases i)
    (auto simp: well_timed_def handleWiFiEvent_timers handleWiFiEvent_history
      intro: close_timers close_history fire_timers fire_history)

lemma run_returns: "\<exists>s'. run ins s = Inr s'"
proof (induction ins arbitrary: s)
  case Nil
  show ?case by simp
next
  case (Cons i ins)
  obtain s1 where "step i s = Inr s1" using step_returns by blast
  with Cons show ?case by (simp add: and_then_def)
qed

lemma run_well_timed: "well_timed s \<Longrightarrow> run ins s = Inr s' \<Longrightarrow> well_timed s'"
proof (induction ins arbitrary: s)
  case Nil
  then show ?case by simp
next
  case (Cons i ins)
  obtain s1 where s1: "step i s = Inr s1" using step_returns by blast
  with Cons.prems have "well_timed s1" "run ins s1 = Inr s'"
    by (auto simp: and_then_def dest: step_well_timed)
  then show ?case by (rule Cons.IH)
qed

lemma construct_well_timed: "construct ok aps cb ri ct = Inr s \<Longrightarrow> well_timed s"
  by (cases ok)
    (auto simp: well_timed_def timers_consistent_def history_consistent_def
      result_defs collaborator_defs method_defs)

lemma well_timed_live_count: "well_timed s \<Longrightarrow> live_count cb s \<le> 1"
  by (cases "connectionTimer s"; cases "reconnectTimer s")
    (simp_all add: well_timed_def timers_consistent_def live_count_def)


lemma construct_fresh_manager:
  "construct True [first_ap, second_ap] True None None = Inr fresh_manager"
  by (simp add: fresh_manager_def result_defs collaborator_defs method_defs)

lemma notifications_append:
  "notifications (xs @ ys) = notifications xs @ notifications ys"
  by (induction xs rule: notifications.induct) simp_all

lemma handleWiFiEvent_config:
  "accessPointConfig (handleWiFiEvent m s) = accessPointConfig s"
  by (cases "connectionTimer s"; cases "reconnectTimer s"; cases m)
    (simp_all add: collaborator_defs method_defs Let_def)

lemma handleDisconnect_cursor:
  "APIndex (handleDisconnect s) = js_rem (js_add1 (APIndex s)) (length (accessPointConfig s))"
  by (cases "connectionTimer s"; cases "reconnectTimer s")
    (simp_all add: collaborator_defs method_defs Let_def)

lemma handleWiFiEvent_cursor:
  "APIndex (handleWiFiEvent m s) =
     (if m = disconnect then js_rem (js_add1 (APIndex s)) (length (accessPointConfig s))
      else if m = gotIP then Num 0 else APIndex s)"
  by (cases "connectionTimer s"; cases "reconnectTimer s"; cases m)
    (simp_all add: collaborator_defs method_defs Let_def)

lemma close_cursor:
  "close d c s = Inr s' \<Longrightarrow>
   APIndex s' = APIndex s \<and> accessPointConfig s' = accessPointConfig s"
  by (cases "connectionTimer s"; cases "reconnectTimer s"; cases d; cases c)
    (auto simp: result_defs collaborator_defs method_defs)

lemma handleDisconnect_config:
  "accessPointConfig (handleDisconnect s) = accessPointConfig s"
  by (cases "connectionTimer s"; cases "reconnectTimer s")
    (simp_all add: collaborator_defs method_defs Let_def)

lemma reconnectCallback_cursor:
  "reconnectCallback ok s = Inr s' \<Longrightarrow>
   accessPointConfig s' = accessPointConfig s \<and>
   (APIndex s' = APIndex s \<or>
    APIndex s' = js_rem (js_add1 (APIndex s)) (length (accessPointConfig s)))"
  by (cases ok)
    (auto simp: reconnectCallback_def result_defs WiFi_connect_def driver_call_def
      record_action_def trace_def startConnectionTimer_def Timer_set_def
      handleDisconnect_config handleDisconnect_cursor)

lemma connectionCallback_cursor:
  "connectionCallback ok s = Inr s' \<Longrightarrow>
   accessPointConfig s' = accessPointConfig s \<and> APIndex s' = APIndex s"
  by (cases ok; cases "connectionTimer s")
    (auto simp: connectionCallback_def result_defs WiFi_disconnect_def driver_call_def
      record_action_def trace_def clearConnectionTimer_def Timer_clear_def)

lemma fire_cursor:
  assumes "fire t ok s = Inr s'"
  shows "accessPointConfig s' = accessPointConfig s \<and>
   (APIndex s' = APIndex s \<or>
    APIndex s' = js_rem (js_add1 (APIndex s)) (length (accessPointConfig s)))"
proof (cases "find (\<lambda>p. fst p = t) (pending s)")
  case None
  with assms show ?thesis by (simp add: fire_def)
next
  case (Some p)
  obtain t' cb interval where p: "p = (t', cb, interval)" by (cases p)
  let ?s1 = "s\<lparr>pending := filter (\<lambda>p. fst p \<noteq> t) (pending s),
      history := history s @ [TimerFired t]\<rparr>"
  show ?thesis
  proof (cases cb)
    case ReconnectCallback
    with assms Some p have "reconnectCallback ok ?s1 = Inr s'" by (simp add: fire_def)
    from reconnectCallback_cursor [OF this] show ?thesis by simp
  next
    case ConnectionCallback
    with assms Some p have "connectionCallback ok ?s1 = Inr s'" by (simp add: fire_def)
    from connectionCallback_cursor [OF this] show ?thesis by simp
  qed
qed

lemma cursor_in_range_iff:
  "cursor_in_range s \<longleftrightarrow> (\<exists>i. APIndex s = Num i \<and> i < length (accessPointConfig s))"
  by (cases "APIndex s") (simp_all add: cursor_in_range_def)

lemma advance_in_range:
  "cursor_in_range s \<Longrightarrow>
   \<exists>i. js_rem (js_add1 (APIndex s)) (length (accessPointConfig s)) = Num i \<and>
       i < length (accessPointConfig s)"
  by (auto simp: cursor_in_range_iff)

lemma step_cursor:
  assumes "step i s = Inr s'" "cursor_in_range s"
  shows "cursor_in_range s' \<and> accessPointConfig s' = accessPointConfig s"
proof (cases i)
  case (DriverEvent m)
  with assms advance_in_range [OF assms(2)] show ?thesis
    by (auto simp: cursor_in_range_iff handleWiFiEvent_cursor handleWiFiEvent_config)
next
  case (TimerExpiry t ok)
  with assms fire_cursor [of t ok s s'] advance_in_range [OF assms(2)] show ?thesis
    by (auto simp: cursor_in_range_iff)
next
  case (CloseCall d c)
  with assms close_cursor [of d c s s'] show ?thesis
    by (auto simp: cursor_in_range_iff)
qed

lemma run_cursor:
  "run ins s = Inr s' \<Longrightarrow> cursor_in_range s \<Longrightarrow>
   cursor_in_range s' \<and> accessPointConfig s' = accessPointConfig s"
proof (induction ins arbitrary: s)
  case Nil
  then show ?case by simp
next
  case (Cons i ins)
  obtain s1 where s1: "step i s = Inr s1" using step_returns by blast
  with Cons.prems have "run ins s1 = Inr s'" by (simp add: and_then_def)
  moreover from step_cursor [OF s1 Cons.prems(2)]
  have "cursor_in_range s1" "accessPointConfig s1 = accessPointConfig s" by simp_all
  ultimately show ?case using Cons.IH [of s1] by simp
qed

lemma construct_cursor:
  "construct ok aps cb ri ct = Inr s \<Longrightarrow> aps \<noteq> [] \<Longrightarrow>
   cursor_in_range s \<and> accessPointConfig s = aps \<and> APIndex s = Num 0"
  by (cases ok) (auto simp: cursor_in_range_iff result_defs collaborator_defs method_defs)

lemma run_disconnects:
  "APIndex s = Num i \<Longrightarrow> i < length (accessPointConfig s) \<Longrightarrow>
   observe APIndex (run (replicate k (DriverEvent disconnect)) s) =
     Some (Num ((i + k) mod length (accessPointConfig s)))"
proof (induction k arbitrary: s i)
  case 0
  then show ?case by (simp add: observe_def)
next
  case (Suc k)
  let ?s = "handleWiFiEvent disconnect s"
  let ?n = "length (accessPointConfig s)"
  have nonempty: "accessPointConfig s \<noteq> []"
    using Suc.prems(2) by auto
  then have "APIndex ?s = Num (Suc i mod ?n)"
    using Suc.prems(1) by (simp add: handleWiFiEvent_cursor)
  moreover have "accessPointConfig ?s = accessPointConfig s"
    by (rule handleWiFiEvent_config)
  moreover have "Suc i mod ?n < ?n"
    using nonempty by simp
  ultimately have "observe APIndex (run (replicate k (DriverEvent disconnect)) ?s) =
     Some (Num ((Suc i mod ?n + k) mod ?n))"
    using Suc.IH [of ?s "Suc i mod ?n"] by simp
  then show ?case
    by (simp add: and_then_def mod_add_left_eq)
qed

lemma close_effect:
  "\<exists>s1. close d c s = Inr s1 \<and>
     connectionTimer s1 = None \<and> reconnectTimer s1 = None \<and>
     pending s1 =
       filter (\<lambda>p. Some (fst p) \<noteq> connectionTimer s \<and> Some (fst p) \<noteq> reconnectTimer s)
         (pending s) \<and>
     nextTimer s1 = nextTimer s \<and>
     notifications (history s1) = notifications (history s) \<and>
     currentState s1 = currentState s \<and> APIndex s1 = APIndex s \<and>
     onNetworkChange s1 = onNetworkChange s \<and>
     reconnectInterval s1 = reconnectInterval s"
  by (cases "connectionTimer s"; cases "reconnectTimer s"; cases d; cases c)
    (simp_all add: result_defs collaborator_defs method_defs notifications_append)

lemma handleDisconnect_schedules:
  "connectionTimer s = None \<Longrightarrow> reconnectTimer s = None \<Longrightarrow>
   reconnectTimer (handleWiFiEvent disconnect s) = Some (nextTimer s) \<and>
   pending (handleWiFiEvent disconnect s) =
     pending s @ [(nextTimer s, ReconnectCallback, reconnectInterval s)]"
  by (simp add: collaborator_defs method_defs Let_def)

lemma gotIP_notifies:
  "notifications (history (handleWiFiEvent gotIP s)) =
     notifications (history s) @ (if onNetworkChange s then [gotIP] else [])"
  by (cases "connectionTimer s"; cases "reconnectTimer s")
    (simp_all add: collaborator_defs method_defs notifications_append)

lemma disconnect_event_forwarded:
  "onNetworkChange s \<Longrightarrow>
   notifications (history (handleWiFiEvent disconnect s)) =
     notifications (history s)
     @ (if currentState s = disconnect then [disconnect] else [disconnect, disconnect])"
  by (cases "connectionTimer s"; cases "reconnectTimer s")
    (simp_all add: collaborator_defs method_defs Let_def notifications_append)

lemma station_event_effect:
  "m = station_connect \<or> m = station_disconnect \<Longrightarrow>
   APIndex (handleWiFiEvent m s) = APIndex s \<and>
   connectionTimer (handleWiFiEvent m s) = connectionTimer s \<and>
   reconnectTimer (handleWiFiEvent m s) = reconnectTimer s \<and>
   pending (handleWiFiEvent m s) = pending s \<and>
   nextTimer (handleWiFiEvent m s) = nextTimer s \<and>
   history (handleWiFiEvent m s) =
     history s @ (if onNetworkChange s then [OnNetworkChange m] else []) \<and>
   currentState (handleWiFiEvent m s) = m \<and>
   \<not> ready (handleWiFiEvent m s)"
  by (auto simp: collaborator_defs method_defs)

section \<open>The claims\<close>

text \<open>
  C7. For every manager state, a \<open>gotIP\<close> message cancels the connection
  timer and the reconnect timer (each held handle is cleared with the timer
  service and both fields become empty), resets the candidate cursor to 0, sets
  the state to \<open>gotIP\<close>, so that \<open>ready\<close> holds, and forwards \<open>gotIP\<close> to the
  callback (when one was supplied).
\<close>

theorem gotIP_event:
  "connectionTimer (handleWiFiEvent gotIP s) = None \<and>
   reconnectTimer (handleWiFiEvent gotIP s) = None \<and>
   pending (handleWiFiEvent gotIP s) =
     filter (\<lambda>p. Some (fst p) \<noteq> connectionTimer s \<and> Some (fst p) \<noteq> reconnectTimer s)
       (pending s) \<and>
   APIndex (handleWiFiEvent gotIP s) = Num 0 \<and>
   currentState (handleWiFiEvent gotIP s) = gotIP \<and>
   ready (handleWiFiEvent gotIP s) \<and>
   history (handleWiFiEvent gotIP s) =
     history s
     @ (case connectionTimer s of None \<Rightarrow> [] | Some t \<Rightarrow> [TimerClear t])
     @ (case reconnectTimer s of None \<Rightarrow> [] | Some t \<Rightarrow> [TimerClear t])
     @ (if onNetworkChange s then [OnNetworkChange gotIP] else [])"
  by (cases "connectionTimer s"; cases "reconnectTimer s")
    (simp_all add: collaborator_defs method_defs)

text \<open>
  C10. For a manager that is connected (\<open>ready\<close>), a \<open>lostIP\<close> message sets the
  state to \<open>lostIP\<close>, so that \<open>ready\<close> no longer holds, and forwards \<open>lostIP\<close> to
  the callback; both timer handles, the scheduled timers and the candidate cursor
  stay as they are and nothing is scheduled.
\<close>

theorem lostIP_event:
  "ready s \<Longrightarrow>
   currentState (handleWiFiEvent lostIP s) = lostIP \<and>
   \<not> ready (handleWiFiEvent lostIP s) \<and>
   history (handleWiFiEvent lostIP s) =
     history s @ (if onNetworkChange s then [OnNetworkChange lostIP] else []) \<and>
   connectionTimer (handleWiFiEvent lostIP s) = connectionTimer s \<and>
   reconnectTimer (handleWiFiEvent lostIP s) = reconnectTimer s \<and>
   APIndex (handleWiFiEvent lostIP s) = APIndex s \<and>
   pending (handleWiFiEvent lostIP s) = pending s \<and>
   nextTimer (handleWiFiEvent lostIP s) = nextTimer s"
  by (simp add: collaborator_defs method_defs)

text \<open>
  C10, witness: \<open>lostIP\<close> delivered to the example manager after \<open>gotIP\<close>.
\<close>

theorem lostIP_event_witness:
  "ready (handleWiFiEvent gotIP fresh_manager) \<and>
   currentState (handleWiFiEvent lostIP (handleWiFiEvent gotIP fresh_manager)) = lostIP \<and>
   \<not> ready (handleWiFiEvent lostIP (handleWiFiEvent gotIP fresh_manager)) \<and>
   history (handleWiFiEvent lostIP (handleWiFiEvent gotIP fresh_manager)) =
     [SuperConstruct (Some first_ap), TimerSet 0 ConnectionCallback 30000, TimerClear 0,
      OnNetworkChange gotIP, OnNetworkChange lostIP] \<and>
   pending (handleWiFiEvent lostIP (handleWiFiEvent gotIP fresh_manager)) = [] \<and>
   APIndex (handleWiFiEvent lostIP (handleWiFiEvent gotIP fresh_manager)) = Num 0"
  using lostIP_event [of "handleWiFiEvent gotIP fresh_manager"]
  by (simp add: fresh_manager_def collaborator_defs method_defs)

text \<open>
  C1. Two consecutive \<open>disconnect\<close> messages should reach the callback once.
  The code forwards every one of them: \<open>handleDisconnect\<close> skips its own
  notification when the state is already \<open>disconnect\<close>, but \<open>handleWiFiEvent\<close>
  then assigns the state and calls the callback whatever the message. A manager
  that was just constructed is in state \<open>disconnect\<close>; two \<open>disconnect\<close> messages
  call the callback twice. After \<open>gotIP\<close>, two \<open>disconnect\<close> messages call it
  three times.
\<close>

theorem repeated_disconnect_forwarded:
  "observe currentState (construct True [first_ap, second_ap] True None None)
     = Some disconnect \<and>
   observe (\<lambda>s. notifications (history s))
     (and_then (construct True [first_ap, second_ap] True None None)
        (run [DriverEvent disconnect, DriverEvent disconnect]))
     = Some [disconnect, disconnect] \<and>
   observe (\<lambda>s. notifications (history s))
     (and_then (construct True [first_ap, second_ap] True None None)
        (run [DriverEvent gotIP, DriverEvent disconnect, DriverEvent disconnect]))
     = Some [gotIP, disconnect, disconnect, disconnect]"
  by (simp add: result_defs collaborator_defs method_defs Let_def)

text \<open>
  C2. A \<open>station_connect\<close> or \<open>station_disconnect\<close> message about a peer station
  should leave a connected manager \<open>ready\<close>. The code assigns every message to
  \<open>currentState\<close>, these two as well, and \<open>ready\<close> compares \<open>currentState\<close> with
  \<open>gotIP\<close>: a manager that has its address stops being \<open>ready\<close> when a station
  message arrives, although the class comment and the comment of \<open>ready\<close> say that
  \<open>ready\<close> tells whether the connection has an address. The cursor and the timers
  are untouched.
\<close>

theorem station_event_clears_ready:
  "observe ready (run [DriverEvent gotIP] fresh_manager) = Some True \<and>
   observe ready (run [DriverEvent gotIP, DriverEvent station_connect] fresh_manager)
     = Some False \<and>
   observe currentState (run [DriverEvent gotIP, DriverEvent station_connect] fresh_manager)
     = Some station_connect \<and>
   observe ready (run [DriverEvent gotIP, DriverEvent station_disconnect] fresh_manager)
     = Some False \<and>
   observe (\<lambda>s. (APIndex s, connectionTimer s, reconnectTimer s, pending s))
     (run [DriverEvent gotIP, DriverEvent station_connect] fresh_manager)
     = observe (\<lambda>s. (APIndex s, connectionTimer s, reconnectTimer s, pending s))
         (run [DriverEvent gotIP] fresh_manager)"
  by (simp add: fresh_manager_def result_defs collaborator_defs method_defs)

text \<open>
  C4, as the code has it. \<open>close\<close> can be called in any state and again after
  itself; it never throws, whatever the two driver calls do. After it both timer
  handles are empty, and they stay empty: the second call clears no timer. Every
  call, the second one too, makes one \<open>WiFi.disconnect\<close> call and one
  \<open>super.close\<close> call, and changes nothing else.
\<close>

theorem close_twice:
  "\<exists>s1 s2. close d1 c1 s = Inr s1 \<and> close d2 c2 s1 = Inr s2 \<and>
     connectionTimer s1 = None \<and> reconnectTimer s1 = None \<and>
     connectionTimer s2 = None \<and> reconnectTimer s2 = None \<and>
     history s1 =
       history s
       @ (case connectionTimer s of None \<Rightarrow> [] | Some t \<Rightarrow> [TimerClear t])
       @ (case reconnectTimer s of None \<Rightarrow> [] | Some t \<Rightarrow> [TimerClear t])
       @ [WiFiDisconnect]
       @ (if d1 then [] else [Trace ''Error during WiFi.disconnect:''])
       @ [SuperClose]
       @ (if c1 then [] else [Trace ''Error during super.close:'']) \<and>
     history s2 =
       history s1
       @ [WiFiDisconnect]
       @ (if d2 then [] else [Trace ''Error during WiFi.disconnect:''])
       @ [SuperClose]
       @ (if c2 then [] else [Trace ''Error during super.close:'']) \<and>
     s2 = s1\<lparr>history := history s2\<rparr>"
  by (cases "connectionTimer s"; cases "reconnectTimer s"; cases d1; cases c1; cases d2; cases c2)
    (simp_all add: result_defs collaborator_defs method_defs)

text \<open>
  C4, as stated, fails: two calls of \<open>close\<close> make two \<open>WiFi.disconnect\<close> calls and
  two \<open>super.close\<close> calls.
\<close>

theorem close_twice_counterexample:
  "observe history (run [CloseCall True True, CloseCall True True] fresh_manager)
   = Some [SuperConstruct (Some first_ap), TimerSet 0 ConnectionCallback 30000,
       TimerClear 0, WiFiDisconnect, SuperClose, WiFiDisconnect, SuperClose]"
  by (simp add: fresh_manager_def result_defs collaborator_defs method_defs)

text \<open>
  C5, as the code has it. The constructor does not look at the length of the
  list: with an empty list the parent constructor is called with \<open>undefined\<close>.
  If that call returns, construction succeeds and the connection timer is started;
  if it throws, the error reaches the caller and no timer has been started.
\<close>

theorem construct_empty:
  "(\<exists>s. construct True [] cb ri ct = Inr s \<and>
      connectionTimer s = Some 0 \<and>
      pending s = [(0, ConnectionCallback, connectionTimeout s)] \<and>
      history s = [SuperConstruct None, TimerSet 0 ConnectionCallback (connectionTimeout s)]) \<and>
   (\<exists>s. construct False [] cb ri ct = Inl (DriverError, s) \<and>
      connectionTimer s = None \<and> reconnectTimer s = None \<and> pending s = [] \<and>
      history s = [SuperConstruct None])"
  by (simp add: result_defs collaborator_defs method_defs)

text \<open>
  C5, as stated, fails: with a parent constructor that returns, construction with
  an empty list succeeds, after a driver call, with a timer scheduled; with a
  parent constructor that throws, the driver has been called all the same.
\<close>

theorem construct_empty_counterexample:
  "observe (\<lambda>s. (connectionTimer s, pending s, history s))
     (construct True ([] :: credential list) True None None)
   = Some (Some 0, [(0, ConnectionCallback, 30000)],
       [SuperConstruct None, TimerSet 0 ConnectionCallback 30000]) \<and>
   map_sum (\<lambda>x. history (snd x)) history
     (construct False ([] :: credential list) True None None)
   = Inl [SuperConstruct None]"
  by (simp add: result_defs collaborator_defs method_defs)

text \<open>
  C8. When the reconnect timer expires, its callback empties the handle, calls
  \<open>WiFi.connect\<close> with the candidate at the cursor and then starts a new
  connection timer. If \<open>WiFi.connect\<close> throws, the error is caught:
  \<open>handleDisconnect\<close> runs again, which advances the cursor and schedules a new
  reconnect timer, and no connection timer is started. In both cases the callback
  returns.
\<close>

theorem reconnect_timer_expiry:
  assumes "find (\<lambda>p. fst p = t) (pending s) = Some (t, ReconnectCallback, interval)"
  shows
  "observe (\<lambda>s'. (reconnectTimer s', connectionTimer s', APIndex s', currentState s'))
     (fire t True s)
     = Some (None, Some (nextTimer s), APIndex s, currentState s) \<and>
   observe pending (fire t True s)
     = Some (filter (\<lambda>p. fst p \<noteq> t) (pending s)
             @ [(nextTimer s, ConnectionCallback, connectionTimeout s)]) \<and>
   observe history (fire t True s)
     = Some (history s
             @ [TimerFired t,
                WiFiConnect (js_index (accessPointConfig s) (APIndex s)),
                TimerSet (nextTimer s) ConnectionCallback (connectionTimeout s)]) \<and>
   fire t False s
     = Inr (handleDisconnect
             (s\<lparr>reconnectTimer := None,
                pending := filter (\<lambda>p. fst p \<noteq> t) (pending s),
                history :=
                  history s
                  @ [TimerFired t,
                     WiFiConnect (js_index (accessPointConfig s) (APIndex s)),
                     Trace ''Error during reconnect:'']\<rparr>)) \<and>
   observe (\<lambda>s'. (reconnectTimer s', connectionTimer s', APIndex s', currentState s'))
     (fire t False s)
     = Some (Some (nextTimer s), None,
             js_rem (js_add1 (APIndex s)) (length (accessPointConfig s)), disconnect) \<and>
   observe pending (fire t False s)
     = Some (filter (\<lambda>p. fst p \<noteq> t \<and> Some (fst p) \<noteq> connectionTimer s) (pending s)
             @ [(nextTimer s, ReconnectCallback, reconnectInterval s)]) \<and>
   observe history (fire t False s)
     = Some (history s
             @ [TimerFired t,
                WiFiConnect (js_index (accessPointConfig s) (APIndex s)),
                Trace ''Error during reconnect:'']
             @ (case connectionTimer s of None \<Rightarrow> [] | Some c \<Rightarrow> [TimerClear c])
             @ [TimerSet (nextTimer s) ReconnectCallback (reconnectInterval s)]
             @ (if currentState s \<noteq> disconnect \<and> onNetworkChange s
                then [OnNetworkChange disconnect] else []))"
proof -
  have expiry: "fire t ok s =
      reconnectCallback ok
        (s\<lparr>pending := filter (\<lambda>p. fst p \<noteq> t) (pending s),
           history := history s @ [TimerFired t]\<rparr>)" for ok
    unfolding fire_def assms by simp
  have returns: "observe f (reconnectCallback True s0) =
      Some (f (startConnectionTimer
        (record_action (WiFiConnect (js_index (accessPointConfig s0) (APIndex s0)))
          (s0\<lparr>reconnectTimer := None\<rparr>))))" for f :: "'a manager \<Rightarrow> 'b" and s0
    by (simp add: reconnectCallback_def result_defs WiFi_connect_def driver_call_def)
  have throws: "reconnectCallback False s0 =
      Inr (handleDisconnect
        (trace ''Error during reconnect:''
          (record_action (WiFiConnect (js_index (accessPointConfig s0) (APIndex s0)))
            (s0\<lparr>reconnectTimer := None\<rparr>))))" for s0 :: "'a manager"
    by (simp add: reconnectCallback_def result_defs WiFi_connect_def driver_call_def)
  show ?thesis
    unfolding expiry returns throws
    by (cases "connectionTimer s"; cases "currentState s = disconnect"; cases "onNetworkChange s")
      (simp_all add: observe_def record_action_def trace_def Timer_set_def Timer_clear_def
        startConnectionTimer_def handleDisconnect_def clearConnectionTimer_def
        clearReconnectTimer_def notify_def Let_def)
qed

text \<open>
  C8, witness: the reconnect timer scheduled by the first \<open>disconnect\<close> expires.
\<close>

theorem reconnect_timer_expiry_witness:
  "find (\<lambda>p. fst p = 1) (pending (handleWiFiEvent disconnect fresh_manager))
     = Some (1, ReconnectCallback, 5000) \<and>
   observe (\<lambda>s'. (reconnectTimer s', connectionTimer s', APIndex s', currentState s'))
     (fire 1 True (handleWiFiEvent disconnect fresh_manager))
     = Some (None, Some 2, Num 1, disconnect) \<and>
   observe history (fire 1 True (handleWiFiEvent disconnect fresh_manager))
     = Some [SuperConstruct (Some first_ap), TimerSet 0 ConnectionCallback 30000,
         TimerClear 0, TimerSet 1 ReconnectCallback 5000, OnNetworkChange disconnect,
         TimerFired 1, WiFiConnect (Some second_ap),
         TimerSet 2 ConnectionCallback 30000] \<and>
   observe (\<lambda>s'. (reconnectTimer s', connectionTimer s', APIndex s', currentState s'))
     (fire 1 False (handleWiFiEvent disconnect fresh_manager))
     = Some (Some 2, None, Num 0, disconnect) \<and>
   observe history (fire 1 False (handleWiFiEvent disconnect fresh_manager))
     = Some [SuperConstruct (Some first_ap), TimerSet 0 ConnectionCallback 30000,
         TimerClear 0, TimerSet 1 ReconnectCallback 5000, OnNetworkChange disconnect,
         TimerFired 1, WiFiConnect (Some second_ap), Trace ''Error during reconnect:'',
         TimerSet 2 ReconnectCallback 5000]"
proof -
  let ?S = "handleWiFiEvent disconnect fresh_manager"
  have S:
    "pending ?S = [(1, ReconnectCallback, 5000)]"
    "history ?S =
       [SuperConstruct (Some first_ap), TimerSet 0 ConnectionCallback 30000, TimerClear 0,
        TimerSet 1 ReconnectCallback 5000, OnNetworkChange disconnect]"
    "nextTimer ?S = 2" "APIndex ?S = Num 1" "connectionTimer ?S = None"
    "accessPointConfig ?S = [first_ap, second_ap]" "currentState ?S = disconnect"
    "reconnectInterval ?S = 5000" "connectionTimeout ?S = 30000"
    by (simp_all add: fresh_manager_def collaborator_defs method_defs Let_def)
  have pre: "find (\<lambda>p. fst p = 1) (pending ?S) = Some (1, ReconnectCallback, 5000)"
    by (simp add: S)
  note expiry = reconnect_timer_expiry [OF pre]
  note returns = expiry [THEN conjunct1]
    expiry [THEN conjunct2, THEN conjunct2, THEN conjunct1]
  note throws = expiry [THEN conjunct2, THEN conjunct2, THEN conjunct2, THEN conjunct2]
  from pre returns throws [THEN conjunct1] throws [THEN conjunct2, THEN conjunct2]
  show ?thesis
    by (simp add: S)
qed

text \<open>
  C6, as the code has it. For a manager constructed with a non-empty list of
  \<open>N\<close> candidates, the cursor is a natural number below \<open>N\<close> in every state the manager can reach. A
  \<open>disconnect\<close> message moves it from \<open>i\<close> to \<open>(i + 1) mod N\<close>, so \<open>k\<close> consecutive
  \<open>disconnect\<close> messages move it to \<open>(i + k) mod N\<close>: from the cursor 0 of a new
  manager they visit 0, 1, ..., \<open>N - 1\<close>, 0, ... in order. \<open>gotIP\<close> sets it to 0, and
  the four other messages leave it as it is.
\<close>

theorem cursor_cycles:
  assumes "construct ok aps cb ri ct = Inr s0" and "aps \<noteq> []"
  shows "\<exists>s i. run ins s0 = Inr s \<and> APIndex s = Num i \<and> i < length aps \<and>
     APIndex (handleWiFiEvent disconnect s) = Num (Suc i mod length aps) \<and>
     (\<forall>k. observe APIndex (run (replicate k (DriverEvent disconnect)) s)
            = Some (Num ((i + k) mod length aps))) \<and>
     (\<forall>k. observe APIndex (run (replicate k (DriverEvent disconnect)) s0)
            = Some (Num (k mod length aps))) \<and>
     APIndex (handleWiFiEvent gotIP s) = Num 0 \<and>
     APIndex (handleWiFiEvent lostIP s) = Num i \<and>
     APIndex (handleWiFiEvent connect s) = Num i \<and>
     APIndex (handleWiFiEvent station_connect s) = Num i \<and>
     APIndex (handleWiFiEvent station_disconnect s) = Num i"
proof -
  from construct_cursor [OF assms]
  have s0: "cursor_in_range s0" "accessPointConfig s0 = aps" "APIndex s0 = Num 0"
    by simp_all
  obtain s where s: "run ins s0 = Inr s" using run_returns by blast
  from run_cursor [OF s s0(1)] s0(2)
  have "cursor_in_range s" and config: "accessPointConfig s = aps" by simp_all
  then obtain i where i: "APIndex s = Num i" "i < length aps"
    by (auto simp: cursor_in_range_iff)
  have "observe APIndex (run (replicate k (DriverEvent disconnect)) s)
      = Some (Num ((i + k) mod length aps))" for k
    using run_disconnects [of s i k] i config by simp
  moreover have "observe APIndex (run (replicate k (DriverEvent disconnect)) s0)
      = Some (Num (k mod length aps))" for k
    using run_disconnects [of s0 0 k] s0 assms(2) by simp
  ultimately show ?thesis
    using s i config assms(2) by (simp add: handleWiFiEvent_cursor)
qed

text \<open>
  C6, witness: two candidates, after a \<open>disconnect\<close>, a failed reconnect attempt
  and a \<open>lostIP\<close>.
\<close>

theorem cursor_cycles_witness:
  "construct True [first_ap, second_ap] True None None = Inr fresh_manager \<and>
   [first_ap, second_ap] \<noteq> [] \<and>
   (\<exists>s i. run [DriverEvent disconnect, TimerExpiry 1 False, DriverEvent lostIP]
            fresh_manager = Inr s \<and>
      APIndex s = Num i \<and> i < length [first_ap, second_ap] \<and>
      APIndex (handleWiFiEvent disconnect s) = Num (Suc i mod length [first_ap, second_ap]) \<and>
      (\<forall>k. observe APIndex (run (replicate k (DriverEvent disconnect)) s)
            = Some (Num ((i + k) mod length [first_ap, second_ap]))) \<and>
      (\<forall>k. observe APIndex (run (replicate k (DriverEvent disconnect)) fresh_manager)
            = Some (Num (k mod length [first_ap, second_ap]))) \<and>
      APIndex (handleWiFiEvent gotIP s) = Num 0 \<and>
      APIndex (handleWiFiEvent lostIP s) = Num i \<and>
      APIndex (handleWiFiEvent connect s) = Num i \<and>
      APIndex (handleWiFiEvent station_connect s) = Num i \<and>
      APIndex (handleWiFiEvent station_disconnect s) = Num i)"
proof -
  have aps: "[first_ap, second_ap] \<noteq> []" by simp
  from cursor_cycles [OF construct_fresh_manager aps] construct_fresh_manager aps
  show ?thesis by (intro conjI)
qed

text \<open>
  C6, as stated, fails: the constructor accepts an empty list, and then the
  cursor 0 is not below the length 0, and the first \<open>disconnect\<close> makes it \<open>NaN\<close>,
  where it stays.
\<close>

theorem cursor_cycles_counterexample:
  "observe (\<lambda>s. (APIndex s, length (accessPointConfig s), cursor_in_range s))
     (construct True ([] :: credential list) True None None)
   = Some (Num 0, 0, False) \<and>
   observe (\<lambda>s. (APIndex s, cursor_in_range s))
     (and_then (construct True ([] :: credential list) True None None)
        (run [DriverEvent disconnect]))
   = Some (NaN, False) \<and>
   observe APIndex
     (and_then (construct True ([] :: credential list) True None None)
        (run [DriverEvent disconnect, DriverEvent disconnect]))
   = Some NaN"
  by (simp add: cursor_in_range_def result_defs collaborator_defs method_defs Let_def)

text \<open>
  C9. In every state a constructed manager can reach, at most one connection
  timer and at most one reconnect timer are scheduled, and whenever the manager
  has scheduled a timer of one of the two roles, no timer of that role was
  scheduled at that moment: an earlier one had been cleared or had fired.
  (\<open>handleDisconnect\<close> clears the reconnect timer itself before it schedules;
  \<open>startConnectionTimer\<close> clears nothing, but it only ever runs when no
  connection timer is scheduled.)
\<close>

theorem timers_exclusive:
  assumes "construct ok aps cb ri ct = Inr s0"
  shows "\<exists>s. run ins s0 = Inr s \<and>
     live_count ConnectionCallback s \<le> 1 \<and>
     live_count ReconnectCallback s \<le> 1 \<and>
     exclusive_schedule (history s)"
proof -
  obtain s where s: "run ins s0 = Inr s" using run_returns by blast
  from construct_well_timed [OF assms] s have "well_timed s"
    by (rule run_well_timed)
  then have "exclusive_schedule (history s)"
    by (simp add: exclusive_schedule_def well_timed_def history_consistent_def)
  with s well_timed_live_count [OF \<open>well_timed s\<close>] show ?thesis
    by simp
qed

text \<open>
  C9, witness: a run in which both timers are scheduled, fire and are cleared.
\<close>

theorem timers_exclusive_witness:
  "construct True [first_ap, second_ap] True None None = Inr fresh_manager \<and>
   (\<exists>s. run [DriverEvent disconnect, TimerExpiry 1 True, TimerExpiry 2 False,
            DriverEvent disconnect, DriverEvent connect] fresh_manager = Inr s \<and>
      live_count ConnectionCallback s \<le> 1 \<and>
      live_count ReconnectCallback s \<le> 1 \<and>
      exclusive_schedule (history s))"
  using timers_exclusive [OF construct_fresh_manager] construct_fresh_manager
  by (intro conjI)

text \<open>
  C3, as the code has it. Whatever has happened to a constructed manager, \<open>close\<close>
  returns, empties both timer handles, leaves no timer scheduled, schedules none,
  calls no callback and does not touch the state or the cursor. The manager keeps
  no record of having been closed: a message that the driver delivers afterwards
  is handled like any other. \<open>gotIP\<close> after \<open>close\<close> makes \<open>ready\<close> true and is
  forwarded to the callback; \<open>disconnect\<close> after \<open>close\<close> schedules a reconnect
  timer.
\<close>

theorem event_after_close:
  assumes "construct ok aps cb ri ct = Inr s0"
  shows "\<exists>s s1. run ins s0 = Inr s \<and> close d c s = Inr s1 \<and>
     connectionTimer s1 = None \<and> reconnectTimer s1 = None \<and> pending s1 = [] \<and>
     nextTimer s1 = nextTimer s \<and>
     notifications (history s1) = notifications (history s) \<and>
     currentState s1 = currentState s \<and> APIndex s1 = APIndex s \<and>
     ready (handleWiFiEvent gotIP s1) \<and>
     notifications (history (handleWiFiEvent gotIP s1)) =
       notifications (history s1) @ (if onNetworkChange s1 then [gotIP] else []) \<and>
     reconnectTimer (handleWiFiEvent disconnect s1) = Some (nextTimer s1) \<and>
     pending (handleWiFiEvent disconnect s1) =
       [(nextTimer s1, ReconnectCallback, reconnectInterval s1)]"
proof -
  obtain s where s: "run ins s0 = Inr s" using run_returns by blast
  from construct_well_timed [OF assms] s have "well_timed s"
    by (rule run_well_timed)
  then have consistent: "timers_consistent s" by (simp add: well_timed_def)
  obtain s1 where s1: "close d c s = Inr s1"
    and cleared: "connectionTimer s1 = None" "reconnectTimer s1 = None"
    and rest: "pending s1 =
       filter (\<lambda>p. Some (fst p) \<noteq> connectionTimer s \<and> Some (fst p) \<noteq> reconnectTimer s)
         (pending s)"
      "nextTimer s1 = nextTimer s"
      "notifications (history s1) = notifications (history s)"
      "currentState s1 = currentState s" "APIndex s1 = APIndex s"
    using close_effect [of d c s] by auto
  have empty: "pending s1 = []"
    using consistent rest(1)
    by (cases "connectionTimer s"; cases "reconnectTimer s")
      (simp_all add: timers_consistent_def)
  have "ready (handleWiFiEvent gotIP s1)"
    by (simp add: handleWiFiEvent_def ready_def notify_def record_action_def Let_def)
  with s s1 cleared rest(2-) empty handleDisconnect_schedules [OF cleared] gotIP_notifies [of s1]
  show ?thesis by simp
qed

text \<open>
  C3, witness: \<open>close\<close> after a \<open>connect\<close> message, with \<open>super.close\<close> throwing.
\<close>

theorem event_after_close_witness:
  "construct True [first_ap, second_ap] True None None = Inr fresh_manager \<and>
   (\<exists>s s1. run [DriverEvent connect] fresh_manager = Inr s \<and>
     close True False s = Inr s1 \<and>
     connectionTimer s1 = None \<and> reconnectTimer s1 = None \<and> pending s1 = [] \<and>
     nextTimer s1 = nextTimer s \<and>
     notifications (history s1) = notifications (history s) \<and>
     currentState s1 = currentState s \<and> APIndex s1 = APIndex s \<and>
     ready (handleWiFiEvent gotIP s1) \<and>
     notifications (history (handleWiFiEvent gotIP s1)) =
       notifications (history s1) @ (if onNetworkChange s1 then [gotIP] else []) \<and>
     reconnectTimer (handleWiFiEvent disconnect s1) = Some (nextTimer s1) \<and>
     pending (handleWiFiEvent disconnect s1) =
       [(nextTimer s1, ReconnectCallback, reconnectInterval s1)])"
  using event_after_close [OF construct_fresh_manager] construct_fresh_manager
  by (intro conjI)

text \<open>
  C3, as stated, fails: \<open>gotIP\<close> delivered after \<open>close\<close> makes \<open>ready\<close> true and
  reaches the callback.
\<close>

theorem event_after_close_counterexample:
  "observe ready (run [CloseCall True True] fresh_manager) = Some False \<and>
   observe ready (run [CloseCall True True, DriverEvent gotIP] fresh_manager) = Some True \<and>
   observe (\<lambda>s. notifications (history s))
     (run [CloseCall True True, DriverEvent gotIP] fresh_manager) = Some [gotIP]"
  by (simp add: fresh_manager_def result_defs collaborator_defs method_defs)

end
